theory Spec2Isabelle
  imports Main "HOL-Library.Word" "HOL-Library.AList"
begin

section \<open>Data model (core/context.go, core/domain.go)\<close>

text \<open>
  Go values held in an \<open>any\<close> (\<open>interface{}\<close>) are an arbitrary type \<open>'v\<close>; the nil
  interface is \<open>None\<close>. A pointer to a string tag (\<open>*ActionType\<close>, \<open>*EntityType\<close>) is a
  \<open>string option\<close>. A Go map is an association list with distinct keys, and the nil map
  is \<open>None\<close>. \<open>time.Time\<close> is the offset from the zero Time, Go's \<open>int\<close> is the 64-bit
  signed word (its size on 64-bit platforms; the code only compares it), and a byte
  slice is a \<open>string\<close> (its nil slice \<open>None\<close>). The \<open>mu\<close> field is not a field of the
  model: every method takes and releases it around its body, so a call is one atomic step
  of the sequential model.
\<close>

type_synonym 'v any = "'v option"
type_synonym 'v gomap = "(string \<times> 'v any) list"
type_synonym time = int
type_synonym bytes = string

datatype error = Error string

record 'v AuditableContext =
  TraceID :: "'v any"
  UserID :: "'v any"
  Action :: "string option"
  Resource :: "string option"
  ResourceID :: "'v any"
  OldData :: "'v any"
  NewData :: "'v any"
  Metadata :: "'v gomap option"
  IPAddress :: string
  UserAgent :: string
  RequestURI :: string
  Method :: string
  ResponseCode :: "64 word"
  StartTime :: time
  EndTime :: time

record 'v AuditEvent =
  evTraceID :: "'v any"
  evUserID :: "'v any"
  evAction :: "string option"
  evResource :: "string option"
  evResourceID :: "'v any"
  evMetadata :: "'v gomap option"
  evIPAddress :: string
  evUserAgent :: string
  evRequestURI :: string
  evMethod :: string
  evResponseCode :: "64 word"
  evSuccess :: bool
  evStartTime :: time
  evEndTime :: time
  evOldData :: "bytes option"
  evNewData :: "bytes option"

text \<open>The zero value of the struct: what a composite literal leaves in a field it omits.\<close>

definition zero_context :: "'v AuditableContext" where
  "zero_context =
     \<lparr>TraceID = None, UserID = None, Action = None, Resource = None, ResourceID = None,
      OldData = None, NewData = None, Metadata = None, IPAddress = [], UserAgent = [],
      RequestURI = [], Method = [], ResponseCode = 0, StartTime = 0, EndTime = 0\<rparr>"

section \<open>Snapshot conversion (ToEvent)\<close>

text \<open>
  \<open>json.Marshal\<close> belongs to the standard library: it is the parameter \<open>marshal\<close>,
  returning the error or the bytes. \<open>ToEvent\<close> builds the event from the accumulator's
  fields, then fills \<open>OldData\<close> and \<open>NewData\<close> where the source is not nil and marshals
  without error. The fields of \<open>AuditEvent\<close> carry the prefix \<open>ev\<close>, since the two
  structs use the same field names. In Go the event's \<open>Metadata\<close> is the accumulator's
  map itself; the model gives the event the map's value at the time of the call.
\<close>

definition marshal_field :: "('v any \<Rightarrow> error + bytes) \<Rightarrow> 'v any \<Rightarrow> bytes option" where
  "marshal_field marshal d =
     (case d of
        None \<Rightarrow> None
      | Some v \<Rightarrow> (case marshal (Some v) of Inl err \<Rightarrow> None | Inr dat \<Rightarrow> Some dat))"

definition ToEvent :: "('v any \<Rightarrow> error + bytes) \<Rightarrow> 'v AuditableContext \<Rightarrow> 'v AuditEvent" where
  "ToEvent marshal ac =
     (let event =
        \<lparr>evTraceID = TraceID ac, evUserID = UserID ac, evAction = Action ac,
         evResource = Resource ac, evResourceID = ResourceID ac, evMetadata = Metadata ac,
         evIPAddress = IPAddress ac, evUserAgent = UserAgent ac,
         evRequestURI = RequestURI ac, evMethod = Method ac,
         evResponseCode = ResponseCode ac,
         evSuccess = (word_sle 200 (ResponseCode ac) \<and> word_sless (ResponseCode ac) 400),
         evStartTime = StartTime ac, evEndTime = EndTime ac,
         evOldData = None, evNewData = None\<rparr>;
        event = (case marshal_field marshal (OldData ac) of
                   None \<Rightarrow> event | Some dat \<Rightarrow> event\<lparr>evOldData := Some dat\<rparr>);
        event = (case marshal_field marshal (NewData ac) of
                   None \<Rightarrow> event | Some dat \<Rightarrow> event\<lparr>evNewData := Some dat\<rparr>)
      in event)"

section \<open>Serialized event shape (struct tags of AuditEvent)\<close>

text \<open>
  The struct tags of \<open>AuditEvent\<close> name each field's JSON key and whether it carries
  \<open>omitempty\<close>. The encoder of \<open>encoding/json\<close> walks the fields in declaration order
  and skips a field tagged \<open>omitempty\<close> whose value is empty for its kind: a nil
  interface or pointer, a map, slice or string of length 0, the integer 0, the boolean
  false; a struct (\<open>time.Time\<close>) is never empty. \<open>json_members\<close> is the list of members
  the encoder writes, each with the Go value it renders.
\<close>

datatype 'v field_value =
    Interface "'v any"
  | Pointer "string option"
  | MapValue "'v gomap option"
  | StringValue string
  | IntValue "64 word"
  | BoolValue bool
  | Struct time
  | Slice "bytes option"

fun isEmptyValue :: "'v field_value \<Rightarrow> bool" where
  "isEmptyValue (Interface i) = (i = None)"
| "isEmptyValue (Pointer p) = (p = None)"
| "isEmptyValue (MapValue m) = (case m of None \<Rightarrow> True | Some kvs \<Rightarrow> length kvs = 0)"
| "isEmptyValue (StringValue s) = (length s = 0)"
| "isEmptyValue (IntValue n) = (n = 0)"
| "isEmptyValue (BoolValue b) = (b = False)"
| "isEmptyValue (Struct t) = False"
| "isEmptyValue (Slice b) = (case b of None \<Rightarrow> True | Some bs \<Rightarrow> length bs = 0)"

text \<open>Key, \<open>omitempty\<close> flag and value of each field, in declaration order.\<close>

definition AuditEvent_fields :: "'v AuditEvent \<Rightarrow> (string \<times> bool \<times> 'v field_value) list" where
  "AuditEvent_fields ev =
     [(''traceId'', False, Interface (evTraceID ev)),
      (''userId'', True, Interface (evUserID ev)),
      (''action'', True, Pointer (evAction ev)),
      (''resource'', True, Pointer (evResource ev)),
      (''resourceId'', True, Interface (evResourceID ev)),
      (''metadata'', True, MapValue (evMetadata ev)),
      (''ipAddress'', True, StringValue (evIPAddress ev)),
      (''userAgent'', True, StringValue (evUserAgent ev)),
      (''requestUri'', True, StringValue (evRequestURI ev)),
      (''method'', True, StringValue (evMethod ev)),
      (''responseCode'', True, IntValue (evResponseCode ev)),
      (''success'', True, BoolValue (evSuccess ev)),
      (''startTime'', False, Struct (evStartTime ev)),
      (''endTime'', False, Struct (evEndTime ev)),
      (''oldData'', True, Slice (evOldData ev)),
      (''newData'', True, Slice (evNewData ev))]"

definition json_members :: "'v AuditEvent \<Rightarrow> (string \<times> 'v field_value) list" where
  "json_members ev =
     map (\<lambda>(key, omitEmpty, fv). (key, fv))
       (filter (\<lambda>(key, omitEmpty, fv). \<not> (omitEmpty \<and> isEmptyValue fv)) (AuditEvent_fields ev))"

definition json_keys :: "'v AuditEvent \<Rightarrow> string list" where
  "json_keys ev = map fst (json_members ev)"

section \<open>Field-mutation operations (core/context.go)\<close>

definition SetUserID :: "'v any \<Rightarrow> 'v AuditableContext \<Rightarrow> 'v AuditableContext" where
  "SetUserID userID ac = ac\<lparr>UserID := userID\<rparr>"

definition SetResourceID :: "'v any \<Rightarrow> 'v AuditableContext \<Rightarrow> 'v AuditableContext" where
  "SetResourceID resourceID ac = ac\<lparr>ResourceID := resourceID\<rparr>"

definition SetOldData :: "'v any \<Rightarrow> 'v AuditableContext \<Rightarrow> 'v AuditableContext" where
  "SetOldData dat ac = ac\<lparr>OldData := dat\<rparr>"

definition SetNewData :: "'v any \<Rightarrow> 'v AuditableContext \<Rightarrow> 'v AuditableContext" where
  "SetNewData dat ac = ac\<lparr>NewData := dat\<rparr>"

text \<open>
  Both metadata setters first replace a nil map by a fresh empty one. An assignment
  \<open>m[k] = v\<close> is \<open>AList.update\<close>; the \<open>range\<close> loop of \<open>SetBulkMetadata\<close> is a fold
  over the entries of its argument, in the order the iteration yields them (a nil map
  yields none).
\<close>

definition make_if_nil :: "'v AuditableContext \<Rightarrow> 'v AuditableContext" where
  "make_if_nil ac = (if Metadata ac = None then ac\<lparr>Metadata := Some []\<rparr> else ac)"

definition map_entries :: "'v gomap option \<Rightarrow> (string \<times> 'v any) list" where
  "map_entries m = (case m of None \<Rightarrow> [] | Some kvs \<Rightarrow> kvs)"

definition SetMetadata :: "string \<Rightarrow> 'v any \<Rightarrow> 'v AuditableContext \<Rightarrow> 'v AuditableContext" where
  "SetMetadata key val ac =
     (let ac = make_if_nil ac
      in ac\<lparr>Metadata := Some (AList.update key val (map_entries (Metadata ac)))\<rparr>)"

definition SetBulkMetadata :: "'v gomap option \<Rightarrow> 'v AuditableContext \<Rightarrow> 'v AuditableContext" where
  "SetBulkMetadata metadata ac =
     (let ac = make_if_nil ac
      in ac\<lparr>Metadata :=
            Some (fold (\<lambda>(k, v) m. AList.update k v m) (map_entries metadata)
                    (map_entries (Metadata ac)))\<rparr>)"

section \<open>Contexts, options and SetContext\<close>

text \<open>
  Accumulators are shared by pointer: the store maps each address to the accumulator it
  holds, and a \<open>*AuditableContext\<close> is an address or the nil pointer. A
  \<open>context.Context\<close> is modelled by what \<open>ctx.Value(AuditableCtxKey)\<close> returns: nothing
  (nil), a \<open>*AuditableContext\<close>, or a value of another type; \<open>other_values\<close> stands for
  the rest of the context. The model's contexts are non-nil interface values.
\<close>

type_synonym addr = nat
type_synonym 'v store = "addr \<Rightarrow> 'v AuditableContext"

datatype ctx_value = NoValue | AuditPtr "addr option" | OtherValue

record Context =
  audit_value :: ctx_value
  other_values :: nat

datatype 'a outcome = Panicked | Returned 'a

text \<open>
  A \<open>ContextOption\<close> is a Go function on the accumulator. Calling it may panic (a nil
  function value does), so an option returns an outcome.
\<close>

type_synonym 'v ContextOption = "'v AuditableContext \<Rightarrow> 'v AuditableContext outcome"

definition WithUserID :: "'v any \<Rightarrow> 'v ContextOption" where
  "WithUserID userID = (\<lambda>ac. Returned (SetUserID userID ac))"

definition WithResourceID :: "'v any \<Rightarrow> 'v ContextOption" where
  "WithResourceID resourceID = (\<lambda>ac. Returned (SetResourceID resourceID ac))"

definition WithOldData :: "'v any \<Rightarrow> 'v ContextOption" where
  "WithOldData dat = (\<lambda>ac. Returned (SetOldData dat ac))"

definition WithNewData :: "'v any \<Rightarrow> 'v ContextOption" where
  "WithNewData dat = (\<lambda>ac. Returned (SetNewData dat ac))"

definition WithMetadata :: "string \<Rightarrow> 'v any \<Rightarrow> 'v ContextOption" where
  "WithMetadata key val = (\<lambda>ac. Returned (SetMetadata key val ac))"

definition WithBulkMetadata :: "'v gomap option \<Rightarrow> 'v ContextOption" where
  "WithBulkMetadata metadata = (\<lambda>ac. Returned (SetBulkMetadata metadata ac))"

definition GetAuditContext :: "Context \<Rightarrow> addr option" where
  "GetAuditContext ctx =
     (case audit_value ctx of
        NoValue \<Rightarrow> None
      | AuditPtr ac \<Rightarrow> ac
      | OtherValue \<Rightarrow> None)"

fun apply_options :: "'v ContextOption list \<Rightarrow> 'v AuditableContext \<Rightarrow> 'v AuditableContext outcome" where
  "apply_options [] ac = Returned ac"
| "apply_options (opt # opts) ac =
     (case opt ac of Panicked \<Rightarrow> Panicked | Returned ac' \<Rightarrow> apply_options opts ac')"

definition SetContext :: "Context \<Rightarrow> 'v ContextOption list \<Rightarrow> 'v store \<Rightarrow> 'v store outcome" where
  "SetContext ctx opts s =
     (case GetAuditContext ctx of
        None \<Rightarrow> Returned s
      | Some ac \<Rightarrow>
          (case apply_options opts (s ac) of
             Panicked \<Rightarrow> Panicked
           | Returned ac' \<Rightarrow> Returned (s(ac := ac'))))"

section \<open>Operation-kind decorators (core/domain.go)\<close>

definition AuditableCreate :: "Context \<Rightarrow> 'v any \<Rightarrow> 'v any \<Rightarrow> 'v store \<Rightarrow> 'v store outcome" where
  "AuditableCreate ctx resourceID newData s =
     SetContext ctx [WithResourceID resourceID, WithNewData newData] s"

definition AuditableUpdate ::
  "Context \<Rightarrow> 'v any \<Rightarrow> 'v any \<Rightarrow> 'v any \<Rightarrow> 'v store \<Rightarrow> 'v store outcome" where
  "AuditableUpdate ctx resourceID oldData newData s =
     SetContext ctx [WithResourceID resourceID, WithOldData oldData, WithNewData newData] s"

definition AuditableDelete :: "Context \<Rightarrow> 'v any \<Rightarrow> 'v any \<Rightarrow> 'v store \<Rightarrow> 'v store outcome" where
  "AuditableDelete ctx resourceID oldData s =
     SetContext ctx [WithResourceID resourceID, WithOldData oldData] s"

definition AuditableGet :: "Context \<Rightarrow> 'v any \<Rightarrow> 'v store \<Rightarrow> 'v store outcome" where
  "AuditableGet ctx resourceID s = SetContext ctx [WithResourceID resourceID] s"

definition AuditableList :: "Context \<Rightarrow> 'v gomap option \<Rightarrow> 'v store \<Rightarrow> 'v store outcome" where
  "AuditableList ctx metadata s =
     (if metadata \<noteq> None then SetContext ctx [WithBulkMetadata metadata] s else Returned s)"

text \<open>
  \<open>json.Unmarshal\<close> into a \<open>map[string]interface{}\<close> variable is the parameter
  \<open>unmarshal\<close>: the error, or the map the variable holds afterwards (still nil when the
  input is the JSON \<open>null\<close>).
\<close>

definition AuditablePage ::
  "('v any \<Rightarrow> error + bytes) \<Rightarrow> (bytes \<Rightarrow> error + 'v gomap option) \<Rightarrow>
   Context \<Rightarrow> 'v any \<Rightarrow> 'v store \<Rightarrow> 'v store outcome" where
  "AuditablePage marshal unmarshal ctx pageData s =
     (case marshal pageData of
        Inl err \<Rightarrow> Returned s
      | Inr bs \<Rightarrow>
          (case unmarshal bs of
             Inl err \<Rightarrow> Returned s
           | Inr metadata \<Rightarrow> SetContext ctx [WithBulkMetadata metadata] s))"

definition AuditableAction ::
  "Context \<Rightarrow> 'v any \<Rightarrow> 'v gomap option \<Rightarrow> 'v store \<Rightarrow> 'v store outcome" where
  "AuditableAction ctx resourceID metadata s =
     (let opts = [WithResourceID resourceID];
          opts = (if metadata \<noteq> None then opts @ [WithBulkMetadata metadata] else opts)
      in SetContext ctx opts s)"

section \<open>Sequences of calls of the mutation API\<close>

text \<open>
  A call of the core's API on the shared store: a setter or \<open>ToEvent\<close> on the
  accumulator at an address, or a decorator on a context. \<open>ToEvent\<close> only reads, so the
  store after it is the store before it. \<open>run_calls\<close> runs a sequence of calls in order.
\<close>

datatype 'v api_call =
    Call_SetUserID addr "'v any"
  | Call_SetResourceID addr "'v any"
  | Call_SetOldData addr "'v any"
  | Call_SetNewData addr "'v any"
  | Call_SetMetadata addr string "'v any"
  | Call_SetBulkMetadata addr "'v gomap option"
  | Call_ToEvent addr
  | Call_AuditableCreate Context "'v any" "'v any"
  | Call_AuditableUpdate Context "'v any" "'v any" "'v any"
  | Call_AuditableDelete Context "'v any" "'v any"
  | Call_AuditableGet Context "'v any"
  | Call_AuditableList Context "'v gomap option"
  | Call_AuditablePage Context "'v any"
  | Call_AuditableAction Context "'v any" "'v gomap option"

fun run_call ::
  "('v any \<Rightarrow> error + bytes) \<Rightarrow> (bytes \<Rightarrow> error + 'v gomap option) \<Rightarrow>
   'v api_call \<Rightarrow> 'v store \<Rightarrow> 'v store outcome" where
  "run_call marshal unmarshal (Call_SetUserID ac userID) s = Returned (s(ac := SetUserID userID (s ac)))"
| "run_call marshal unmarshal (Call_SetResourceID ac resourceID) s =
     Returned (s(ac := SetResourceID resourceID (s ac)))"
| "run_call marshal unmarshal (Call_SetOldData ac dat) s = Returned (s(ac := SetOldData dat (s ac)))"
| "run_call marshal unmarshal (Call_SetNewData ac dat) s = Returned (s(ac := SetNewData dat (s ac)))"
| "run_call marshal unmarshal (Call_SetMetadata ac key val) s =
     Returned (s(ac := SetMetadata key val (s ac)))"
| "run_call marshal unmarshal (Call_SetBulkMetadata ac metadata) s =
     Returned (s(ac := SetBulkMetadata metadata (s ac)))"
| "run_call marshal unmarshal (Call_ToEvent ac) s = (let event = ToEvent marshal (s ac) in Returned s)"
| "run_call marshal unmarshal (Call_AuditableCreate ctx resourceID newData) s =
     AuditableCreate ctx resourceID newData s"
| "run_call marshal unmarshal (Call_AuditableUpdate ctx resourceID oldData newData) s =
     AuditableUpdate ctx resourceID oldData newData s"
| "run_call marshal unmarshal (Call_AuditableDelete ctx resourceID oldData) s =
     AuditableDelete ctx resourceID oldData s"
| "run_call marshal unmarshal (Call_AuditableGet ctx resourceID) s = AuditableGet ctx resourceID s"
| "run_call marshal unmarshal (Call_AuditableList ctx metadata) s = AuditableList ctx metadata s"
| "run_call marshal unmarshal (Call_AuditablePage ctx pageData) s =
     AuditablePage marshal unmarshal ctx pageData s"
| "run_call marshal unmarshal (Call_AuditableAction ctx resourceID metadata) s =
     AuditableAction ctx resourceID metadata s"

fun run_calls ::
  "('v any \<Rightarrow> error + bytes) \<Rightarrow> (bytes \<Rightarrow> error + 'v gomap option) \<Rightarrow>
   'v api_call list \<Rightarrow> 'v store \<Rightarrow> 'v store outcome" where
  "run_calls marshal unmarshal [] s = Returned s"
| "run_calls marshal unmarshal (c # cs) s =
     (case run_call marshal unmarshal c s of
        Panicked \<Rightarrow> Panicked
      | Returned s' \<Rightarrow> run_calls marshal unmarshal cs s')"

text \<open>An option that returns and leaves the trace identifier as it was.\<close>

definition keeps_TraceID :: "'v ContextOption \<Rightarrow> bool" where
  "keeps_TraceID opt = (\<forall>ac. \<exists>ac'. opt ac = Returned ac' \<and> TraceID ac' = TraceID ac)"

section \<open>Transport configuration and the Echo adapter\<close>

text \<open>
  \<open>transport.Config\<close>: the auditor (an interface value, nil or an implementation of
  type \<open>'a\<close>) and three function values, each nil or a function. The functions are the
  caller's; the model takes them to be pure and to return.
\<close>

record ('v, 'a) Config =
  Auditor :: "'a option"
  NewTraceID :: "(unit \<Rightarrow> 'v any) option"
  UserFromContext :: "(Context \<Rightarrow> 'v any) option"
  Skipper :: "(Context \<Rightarrow> bool) option"

text \<open>
  What the adapter reads of an \<open>echo.Context\<close>: the request's context, the value stored
  under the audit key in Echo's own map, and the request's address, agent, URI and method.
\<close>

record echo_Context =
  request_Context :: Context
  echo_value :: ctx_value
  RealIP :: string
  request_UserAgent :: string
  request_RequestURI :: string
  request_Method :: string

text \<open>
  The state a handler runs in: the store of accumulators with the next address the
  allocator hands out, the response of the request (\<open>c.Response()\<close>: nil, or its
  \<open>Status\<close>), the clock \<open>time.Now()\<close> reads, and the goroutines started so far, each a
  call \<open>Audit(ctx, event)\<close> on an auditor.
\<close>

record ('v, 'a) world =
  heap :: "'v store"
  next_addr :: addr
  response :: "64 word option"
  now :: time
  goroutines :: "('a \<times> Context \<times> 'v AuditEvent) list"

type_synonym ('v, 'a) HandlerFunc =
  "echo_Context \<Rightarrow> ('v, 'a) world \<Rightarrow> (error option \<times> ('v, 'a) world) outcome"

type_synonym ('v, 'a) MiddlewareFunc = "('v, 'a) HandlerFunc \<Rightarrow> ('v, 'a) HandlerFunc"

record ('v, 'a) EchoMw =
  cfg :: "('v, 'a) Config"

definition NewEchoMiddleware :: "('v, 'a) Config \<Rightarrow> ('v, 'a) EchoMw" where
  "NewEchoMiddleware c = \<lparr>cfg = c\<rparr>"

definition SetEchoAuditContext :: "echo_Context \<Rightarrow> addr option \<Rightarrow> echo_Context" where
  "SetEchoAuditContext c auditCtx =
     (let c = c\<lparr>echo_value := AuditPtr auditCtx\<rparr>;
          ctxWithAudit = (request_Context c)\<lparr>audit_value := AuditPtr auditCtx\<rparr>
      in c\<lparr>request_Context := ctxWithAudit\<rparr>)"

text \<open>
  \<open>Root\<close>, up to the call of \<open>next\<close>: the accumulator is allocated with the trace
  identifier, an empty metadata map, the request's fields and the start time, and is
  attached to the Echo context. Calling a nil \<open>NewTraceID\<close> panics.
\<close>

definition Root_enter ::
  "('v, 'a) EchoMw \<Rightarrow> echo_Context \<Rightarrow> ('v, 'a) world \<Rightarrow>
   (echo_Context \<times> addr \<times> ('v, 'a) world) outcome" where
  "Root_enter em c w =
     (case NewTraceID (cfg em) of
        None \<Rightarrow> Panicked
      | Some newTraceID \<Rightarrow>
          (let auditCtx = next_addr w;
               w = w\<lparr>heap := (heap w)(auditCtx :=
                      zero_context\<lparr>TraceID := newTraceID (), Metadata := Some [],
                        IPAddress := RealIP c, UserAgent := request_UserAgent c,
                        RequestURI := request_RequestURI c, Method := request_Method c,
                        StartTime := now w\<rparr>),
                    next_addr := Suc auditCtx\<rparr>
           in Returned (SetEchoAuditContext c (Some auditCtx), auditCtx, w)))"

text \<open>
  \<open>Root\<close>, after \<open>next\<close> has returned \<open>err\<close>: the end time, then the response code
  when there is a response, then the trigger. The \<open>go\<close> statement evaluates
  \<open>auditCtx.ToEvent()\<close> and starts the call of \<open>Audit\<close>; on a nil auditor it panics.
\<close>

definition Root_leave ::
  "('v any \<Rightarrow> error + bytes) \<Rightarrow> ('v, 'a) EchoMw \<Rightarrow> Context \<Rightarrow> addr \<Rightarrow> error option \<Rightarrow>
   ('v, 'a) world \<Rightarrow> (error option \<times> ('v, 'a) world) outcome" where
  "Root_leave marshal em ctx auditCtx err w =
     (let w = w\<lparr>heap := (heap w)(auditCtx := (heap w auditCtx)\<lparr>EndTime := now w\<rparr>)\<rparr>;
          w = (case response w of
                 None \<Rightarrow> w
               | Some status \<Rightarrow>
                   w\<lparr>heap := (heap w)(auditCtx := (heap w auditCtx)\<lparr>ResponseCode := status\<rparr>)\<rparr>)
      in if Resource (heap w auditCtx) \<noteq> None \<and> Action (heap w auditCtx) \<noteq> None
         then (case Auditor (cfg em) of
                 None \<Rightarrow> Panicked
               | Some auditor \<Rightarrow>
                   Returned (err, w\<lparr>goroutines := goroutines w @
                     [(auditor, ctx, ToEvent marshal (heap w auditCtx))]\<rparr>))
         else Returned (err, w))"

definition EchoMw_Root ::
  "('v any \<Rightarrow> error + bytes) \<Rightarrow> ('v, 'a) EchoMw \<Rightarrow> ('v, 'a) MiddlewareFunc" where
  "EchoMw_Root marshal em next c w =
     (let ctx = request_Context c
      in if (case Skipper (cfg em) of None \<Rightarrow> False | Some skipper \<Rightarrow> skipper ctx)
         then next c w
         else (case Root_enter em c w of
                 Panicked \<Rightarrow> Panicked
               | Returned (c, auditCtx, w) \<Rightarrow>
                   (case next c w of
                      Panicked \<Rightarrow> Panicked
                    | Returned (err, w) \<Rightarrow> Root_leave marshal em ctx auditCtx err w)))"

text \<open>
  \<open>For\<close>: with a \<open>*AuditableContext\<close> under Echo's key the middleware writes the
  resource and the action through the pointer (a nil pointer panics), and the user when an
  extractor is configured and returns a non-nil user; then it calls \<open>next\<close>.
\<close>

definition EchoMw_For ::
  "('v, 'a) EchoMw \<Rightarrow> string \<Rightarrow> string \<Rightarrow> ('v, 'a) MiddlewareFunc" where
  "EchoMw_For em resource action next c w =
     (case echo_value c of
        NoValue \<Rightarrow> next c w
      | OtherValue \<Rightarrow> next c w
      | AuditPtr None \<Rightarrow> Panicked
      | AuditPtr (Some auditCtx) \<Rightarrow>
          (let w = w\<lparr>heap := (heap w)(auditCtx := (heap w auditCtx)\<lparr>Resource := Some resource\<rparr>)\<rparr>;
               w = w\<lparr>heap := (heap w)(auditCtx := (heap w auditCtx)\<lparr>Action := Some action\<rparr>)\<rparr>;
               w = (case UserFromContext (cfg em) of
                      None \<Rightarrow> w
                    | Some userFromContext \<Rightarrow>
                        (case userFromContext (request_Context c) of
                           None \<Rightarrow> w
                         | Some u \<Rightarrow>
                             w\<lparr>heap := (heap w)(auditCtx := (heap w auditCtx)\<lparr>UserID := Some u\<rparr>)\<rparr>))
           in next c w))"

section \<open>The adapter's singleton (echo-adapter/config.go)\<close>

text \<open>
  The package variables: the \<open>sync.Once\<close>, as whether its function has run, and \<open>mw\<close>,
  nil until \<open>Configure\<close> sets it. The package functions \<open>Root\<close> and \<open>For\<close> panic on a
  nil \<open>mw\<close> and otherwise return the middleware of \<open>mw\<close>.
\<close>

record ('v, 'a) package_vars =
  once :: bool
  mw :: "('v, 'a) EchoMw option"

definition initial_vars :: "('v, 'a) package_vars" where
  "initial_vars = \<lparr>once = False, mw = None\<rparr>"

definition Configure :: "('v, 'a) Config \<Rightarrow> ('v, 'a) package_vars \<Rightarrow> ('v, 'a) package_vars" where
  "Configure c g = (if once g then g else g\<lparr>mw := Some (NewEchoMiddleware c), once := True\<rparr>)"

definition Root ::
  "('v any \<Rightarrow> error + bytes) \<Rightarrow> ('v, 'a) package_vars \<Rightarrow> ('v, 'a) MiddlewareFunc outcome" where
  "Root marshal g = (case mw g of None \<Rightarrow> Panicked | Some m \<Rightarrow> Returned (EchoMw_Root marshal m))"

definition For ::
  "string \<Rightarrow> ('v, 'a) package_vars \<Rightarrow> (string \<Rightarrow> ('v, 'a) MiddlewareFunc) outcome" where
  "For resource g = (case mw g of None \<Rightarrow> Panicked | Some m \<Rightarrow> Returned (EchoMw_For m resource))"

section \<open>Properties of the conversion\<close>

lemma ToEvent_Success:
  "evSuccess (ToEvent marshal ac) =
     (word_sle 200 (ResponseCode ac) \<and> word_sless (ResponseCode ac) 400)"
  by (simp add: ToEvent_def Let_def split: option.splits)

text \<open>
  C2. The event's \<open>Success\<close> is true exactly when the response code, read as a signed
  integer, lies in the half-open range from 200 to 400. It is false for the codes 0, 199,
  400 and 500, and for an accumulator whose code was never set (the zero value).
\<close>

theorem C2_success_iff_2xx_3xx:
  "(evSuccess (ToEvent marshal ac) \<longleftrightarrow>
      200 \<le> sint (ResponseCode ac) \<and> sint (ResponseCode ac) < 400)
   \<and> \<not> evSuccess (ToEvent marshal (ac\<lparr>ResponseCode := 0\<rparr>))
   \<and> \<not> evSuccess (ToEvent marshal (ac\<lparr>ResponseCode := 199\<rparr>))
   \<and> \<not> evSuccess (ToEvent marshal (ac\<lparr>ResponseCode := 400\<rparr>))
   \<and> \<not> evSuccess (ToEvent marshal (ac\<lparr>ResponseCode := 500\<rparr>))
   \<and> \<not> evSuccess (ToEvent marshal (zero_context :: 'v AuditableContext))"
  by (simp add: ToEvent_Success zero_context_def word_sle_eq word_sless_alt)

theorem C2_witness:
  "evSuccess (ToEvent (\<lambda>v. Inr ''null'') ((zero_context :: nat AuditableContext)\<lparr>ResponseCode := 204\<rparr>))
   \<and> \<not> evSuccess (ToEvent (\<lambda>v. Inr ''null'') ((zero_context :: nat AuditableContext)\<lparr>ResponseCode := 404\<rparr>))"
  using C2_success_iff_2xx_3xx [of "\<lambda>v. Inr ''null''" "(zero_context :: nat AuditableContext)\<lparr>ResponseCode := 204\<rparr>"]
    C2_success_iff_2xx_3xx [of "\<lambda>v. Inr ''null''" "(zero_context :: nat AuditableContext)\<lparr>ResponseCode := 404\<rparr>"]
  by simp

lemma ToEvent_fields:
  "evTraceID (ToEvent marshal ac) = TraceID ac"
  "evUserID (ToEvent marshal ac) = UserID ac"
  "evAction (ToEvent marshal ac) = Action ac"
  "evResource (ToEvent marshal ac) = Resource ac"
  "evResourceID (ToEvent marshal ac) = ResourceID ac"
  "evMetadata (ToEvent marshal ac) = Metadata ac"
  "evIPAddress (ToEvent marshal ac) = IPAddress ac"
  "evUserAgent (ToEvent marshal ac) = UserAgent ac"
  "evRequestURI (ToEvent marshal ac) = RequestURI ac"
  "evMethod (ToEvent marshal ac) = Method ac"
  "evResponseCode (ToEvent marshal ac) = ResponseCode ac"
  "evStartTime (ToEvent marshal ac) = StartTime ac"
  "evEndTime (ToEvent marshal ac) = EndTime ac"
  by (simp_all add: ToEvent_def Let_def split: option.splits)

lemma ToEvent_OldData: "evOldData (ToEvent marshal ac) = marshal_field marshal (OldData ac)"
  by (simp add: ToEvent_def Let_def split: option.splits)

lemma ToEvent_NewData: "evNewData (ToEvent marshal ac) = marshal_field marshal (NewData ac)"
  by (simp add: ToEvent_def Let_def split: option.splits)

section \<open>Keys of the serialized event\<close>

lemma json_keys_mem:
  "k \<in> set (json_keys ev) \<longleftrightarrow>
     (\<exists>om fv. (k, om, fv) \<in> set (AuditEvent_fields ev) \<and> \<not> (om \<and> isEmptyValue fv))"
  by (force simp: json_keys_def json_members_def)

lemma key_traceId: "''traceId'' \<in> set (json_keys ev)"
  by (auto simp add: json_keys_mem AuditEvent_fields_def)

lemma key_startTime: "''startTime'' \<in> set (json_keys ev)"
  by (auto simp add: json_keys_mem AuditEvent_fields_def)

lemma key_endTime: "''endTime'' \<in> set (json_keys ev)"
  by (auto simp add: json_keys_mem AuditEvent_fields_def)

lemma key_success: "''success'' \<in> set (json_keys ev) \<longleftrightarrow> evSuccess ev"
  by (auto simp add: json_keys_mem AuditEvent_fields_def)

lemma key_userId: "''userId'' \<in> set (json_keys ev) \<longleftrightarrow> evUserID ev \<noteq> None"
  by (auto simp add: json_keys_mem AuditEvent_fields_def)

lemma key_metadata: "''metadata'' \<in> set (json_keys ev) \<longleftrightarrow> (\<exists>kvs. evMetadata ev = Some kvs \<and> kvs \<noteq> [])"
  by (auto simp add: json_keys_mem AuditEvent_fields_def split: option.splits)

lemma key_oldData: "''oldData'' \<in> set (json_keys ev) \<longleftrightarrow> (\<exists>bs. evOldData ev = Some bs \<and> bs \<noteq> [])"
  by (auto simp add: json_keys_mem AuditEvent_fields_def split: option.splits)


lemma key_action: "''action'' \<in> set (json_keys ev) \<longleftrightarrow> evAction ev \<noteq> None"
  by (auto simp add: json_keys_mem AuditEvent_fields_def)

lemma key_resource: "''resource'' \<in> set (json_keys ev) \<longleftrightarrow> evResource ev \<noteq> None"
  by (auto simp add: json_keys_mem AuditEvent_fields_def)

lemma key_newData: "''newData'' \<in> set (json_keys ev) \<longleftrightarrow> (\<exists>bs. evNewData ev = Some bs \<and> bs \<noteq> [])"
  by (auto simp add: json_keys_mem AuditEvent_fields_def split: option.splits)

section \<open>Setters, options and call sequences\<close>

lemma setters_frame:
  "(SetUserID u ac)\<lparr>UserID := UserID ac\<rparr> = ac"
  "(SetResourceID r ac)\<lparr>ResourceID := ResourceID ac\<rparr> = ac"
  "(SetOldData d ac)\<lparr>OldData := OldData ac\<rparr> = ac"
  "(SetNewData d ac)\<lparr>NewData := NewData ac\<rparr> = ac"
  "(SetMetadata k v ac)\<lparr>Metadata := Metadata ac\<rparr> = ac"
  "(SetBulkMetadata m ac)\<lparr>Metadata := Metadata ac\<rparr> = ac"
  by (simp_all add: SetUserID_def SetResourceID_def SetOldData_def SetNewData_def
      SetMetadata_def SetBulkMetadata_def make_if_nil_def Let_def)

lemma setters_TraceID:
  "TraceID (SetUserID u ac) = TraceID ac"
  "TraceID (SetResourceID r ac) = TraceID ac"
  "TraceID (SetOldData d ac) = TraceID ac"
  "TraceID (SetNewData d ac) = TraceID ac"
  "TraceID (SetMetadata k v ac) = TraceID ac"
  "TraceID (SetBulkMetadata m ac) = TraceID ac"
  by (simp_all add: SetUserID_def SetResourceID_def SetOldData_def SetNewData_def
      SetMetadata_def SetBulkMetadata_def make_if_nil_def Let_def)

lemma library_options_keep_TraceID:
  "keeps_TraceID (WithUserID u)" "keeps_TraceID (WithResourceID r)" "keeps_TraceID (WithOldData d)"
  "keeps_TraceID (WithNewData d)" "keeps_TraceID (WithMetadata k v)" "keeps_TraceID (WithBulkMetadata m)"
  by (simp_all add: keeps_TraceID_def WithUserID_def WithResourceID_def WithOldData_def
      WithNewData_def WithMetadata_def WithBulkMetadata_def setters_TraceID)

lemma apply_options_keeps_TraceID:
  "list_all keeps_TraceID opts \<Longrightarrow> \<exists>ac'. apply_options opts ac = Returned ac' \<and> TraceID ac' = TraceID ac"
proof (induction opts arbitrary: ac)
  case Nil
  then show ?case by simp
next
  case (Cons opt opts)
  from Cons.prems have "keeps_TraceID opt" and rest: "list_all keeps_TraceID opts" by simp_all
  then obtain ac1 where o1: "opt ac = Returned ac1" and t1: "TraceID ac1 = TraceID ac"
    unfolding keeps_TraceID_def by blast
  from Cons.IH [OF rest, of ac1] obtain ac' where
    "apply_options opts ac1 = Returned ac'" "TraceID ac' = TraceID ac1" by blast
  with o1 t1 show ?case by simp
qed

lemma SetContext_keeps_TraceID:
  assumes "list_all keeps_TraceID opts"
  shows "\<exists>s'. SetContext ctx opts s = Returned s' \<and> (\<forall>a. TraceID (s' a) = TraceID (s a))"
proof (cases "GetAuditContext ctx")
  case None
  then show ?thesis by (simp add: SetContext_def)
next
  case (Some a)
  from apply_options_keeps_TraceID [OF assms, of "s a"] obtain ac' where
    "apply_options opts (s a) = Returned ac'" "TraceID ac' = TraceID (s a)" by blast
  with Some show ?thesis by (simp add: SetContext_def)
qed

lemma run_call_TraceID:
  "\<exists>s'. run_call marshal unmarshal c s = Returned s' \<and> (\<forall>a. TraceID (s' a) = TraceID (s a))"
proof (cases c)
  case (Call_AuditablePage ctx pageData)
  show ?thesis
    using SetContext_keeps_TraceID [of "[WithBulkMetadata m]" ctx s for m]
    by (auto simp add: Call_AuditablePage AuditablePage_def library_options_keep_TraceID split: sum.splits)
next
  case (Call_AuditableAction ctx r m)
  show ?thesis
    using SetContext_keeps_TraceID [of "[WithResourceID r]" ctx s]
      SetContext_keeps_TraceID [of "[WithResourceID r, WithBulkMetadata m]" ctx s]
    by (cases m) (simp_all add: Call_AuditableAction AuditableAction_def Let_def library_options_keep_TraceID)
next
  case (Call_AuditableList ctx m)
  show ?thesis
    using SetContext_keeps_TraceID [of "[WithBulkMetadata m]" ctx s]
    by (simp add: Call_AuditableList AuditableList_def library_options_keep_TraceID)
next
  case (Call_AuditableCreate ctx r n)
  show ?thesis
    using SetContext_keeps_TraceID [of "[WithResourceID r, WithNewData n]" ctx s]
    by (simp add: Call_AuditableCreate AuditableCreate_def library_options_keep_TraceID)
next
  case (Call_AuditableUpdate ctx r d n)
  show ?thesis
    using SetContext_keeps_TraceID [of "[WithResourceID r, WithOldData d, WithNewData n]" ctx s]
    by (simp add: Call_AuditableUpdate AuditableUpdate_def library_options_keep_TraceID)
next
  case (Call_AuditableDelete ctx r d)
  show ?thesis
    using SetContext_keeps_TraceID [of "[WithResourceID r, WithOldData d]" ctx s]
    by (simp add: Call_AuditableDelete AuditableDelete_def library_options_keep_TraceID)
next
  case (Call_AuditableGet ctx r)
  show ?thesis
    using SetContext_keeps_TraceID [of "[WithResourceID r]" ctx s]
    by (simp add: Call_AuditableGet AuditableGet_def library_options_keep_TraceID)
qed (simp_all add: setters_TraceID)

lemma run_calls_TraceID:
  "\<exists>s'. run_calls marshal unmarshal cs s = Returned s' \<and> (\<forall>a. TraceID (s' a) = TraceID (s a))"
proof (induction cs arbitrary: s)
  case Nil
  then show ?case by simp
next
  case (Cons c cs)
  from run_call_TraceID [of marshal unmarshal c s] obtain s1 where
    c1: "run_call marshal unmarshal c s = Returned s1" and t1: "\<forall>a. TraceID (s1 a) = TraceID (s a)"
    by blast
  from Cons.IH [of s1] obtain s' where
    "run_calls marshal unmarshal cs s1 = Returned s'" "\<forall>a. TraceID (s' a) = TraceID (s1 a)" by blast
  with c1 t1 show ?case by simp
qed

lemma fold_update_map_of:
  "distinct (map fst kvs) \<Longrightarrow>
   map_of (fold (\<lambda>(k, v) m. AList.update k v m) kvs m) = map_of m ++ map_of kvs"
proof (induction kvs arbitrary: m)
  case Nil
  then show ?case by simp
next
  case (Cons kv kvs)
  obtain k v where kv: "kv = (k, v)" by (cases kv)
  from Cons.prems have fresh: "map_of kvs k = None" and rest: "distinct (map fst kvs)"
    by (simp_all add: kv map_of_eq_None_iff)
  have "map_of (fold (\<lambda>(k, v) m. AList.update k v m) (kv # kvs) m) =
          map_of (AList.update k v m) ++ map_of kvs"
    using Cons.IH [OF rest] by (simp add: kv)
  also have "\<dots> = (map_of m)(k \<mapsto> v) ++ map_of kvs"
    by (simp only: update_conv')
  also have "\<dots> = map_of m ++ map_of (kv # kvs)"
    using fresh by (intro ext) (simp add: kv map_add_def split: option.splits)
  finally show ?case .
qed

lemma fold_update_distinct:
  "distinct (map fst m) \<Longrightarrow> distinct (map fst (fold (\<lambda>(k, v) m. AList.update k v m) kvs m))"
  by (induction kvs arbitrary: m) (auto simp add: distinct_update)

section \<open>Key presence and best-effort conversion\<close>

text \<open>
  C1, as stated, fails. The \<open>success\<close> field is tagged \<open>omitempty\<close>, so the encoder
  leaves the key out when the derived value is false: the event of an accumulator with
  response code 500 is serialized without the key \<open>success\<close>.
\<close>

theorem C1_success_key_counterexample:
  "''success'' \<notin> set (json_keys (ToEvent (\<lambda>v. Inr ''null'')
      ((zero_context :: nat AuditableContext)\<lparr>TraceID := Some 1, ResponseCode := 500\<rparr>)))"
  by (simp add: key_success ToEvent_Success word_sle_eq word_sless_alt)

text \<open>
  C1, amended. For every accumulator, the serialized event contains the keys \<open>traceId\<close>,
  \<open>startTime\<close> and \<open>endTime\<close>, and it contains the key \<open>success\<close> exactly when the
  derived success value is true, that is when the response code lies in the range from
  200 up to, not including, 400.
\<close>

theorem C1_required_keys_and_success_when_true:
  "''traceId'' \<in> set (json_keys (ToEvent marshal ac))
   \<and> ''startTime'' \<in> set (json_keys (ToEvent marshal ac))
   \<and> ''endTime'' \<in> set (json_keys (ToEvent marshal ac))
   \<and> (''success'' \<in> set (json_keys (ToEvent marshal ac)) \<longleftrightarrow>
        200 \<le> sint (ResponseCode ac) \<and> sint (ResponseCode ac) < 400)"
  by (simp add: key_traceId key_startTime key_endTime key_success ToEvent_Success
      word_sle_eq word_sless_alt)

theorem C1_witness:
  "''traceId'' \<in> set (json_keys (ToEvent (\<lambda>v. Inr ''null'')
      ((zero_context :: nat AuditableContext)\<lparr>ResponseCode := 200\<rparr>)))
   \<and> ''success'' \<in> set (json_keys (ToEvent (\<lambda>v. Inr ''null'')
      ((zero_context :: nat AuditableContext)\<lparr>ResponseCode := 200\<rparr>)))"
  using C1_required_keys_and_success_when_true
    [of "\<lambda>v. Inr ''null''" "(zero_context :: nat AuditableContext)\<lparr>ResponseCode := 200\<rparr>"]
  by simp

text \<open>
  C3. \<open>ToEvent\<close> returns an event for every accumulator and every behaviour of the
  marshaller; it has no error result. Where \<open>OldData\<close> (or \<open>NewData\<close>) is nil the event's
  field is absent; where it is set and marshalling fails the field is absent too; where
  marshalling succeeds the field holds the bytes. Every other field of the event is
  produced from the accumulator whatever the marshaller does.
\<close>

theorem C3_ToEvent_total_best_effort:
  "(OldData ac = None \<longrightarrow> evOldData (ToEvent marshal ac) = None)
   \<and> (NewData ac = None \<longrightarrow> evNewData (ToEvent marshal ac) = None)
   \<and> (\<forall>v err. OldData ac = Some v \<longrightarrow> marshal (Some v) = Inl err \<longrightarrow>
          evOldData (ToEvent marshal ac) = None)
   \<and> (\<forall>v err. NewData ac = Some v \<longrightarrow> marshal (Some v) = Inl err \<longrightarrow>
          evNewData (ToEvent marshal ac) = None)
   \<and> (\<forall>v bs. OldData ac = Some v \<longrightarrow> marshal (Some v) = Inr bs \<longrightarrow>
          evOldData (ToEvent marshal ac) = Some bs)
   \<and> (\<forall>v bs. NewData ac = Some v \<longrightarrow> marshal (Some v) = Inr bs \<longrightarrow>
          evNewData (ToEvent marshal ac) = Some bs)
   \<and> evTraceID (ToEvent marshal ac) = TraceID ac
   \<and> evUserID (ToEvent marshal ac) = UserID ac
   \<and> evAction (ToEvent marshal ac) = Action ac
   \<and> evResource (ToEvent marshal ac) = Resource ac
   \<and> evResourceID (ToEvent marshal ac) = ResourceID ac
   \<and> evMetadata (ToEvent marshal ac) = Metadata ac
   \<and> evIPAddress (ToEvent marshal ac) = IPAddress ac
   \<and> evUserAgent (ToEvent marshal ac) = UserAgent ac
   \<and> evRequestURI (ToEvent marshal ac) = RequestURI ac
   \<and> evMethod (ToEvent marshal ac) = Method ac
   \<and> evResponseCode (ToEvent marshal ac) = ResponseCode ac
   \<and> evSuccess (ToEvent marshal ac) =
        (word_sle 200 (ResponseCode ac) \<and> word_sless (ResponseCode ac) 400)
   \<and> evStartTime (ToEvent marshal ac) = StartTime ac
   \<and> evEndTime (ToEvent marshal ac) = EndTime ac"
  by (simp add: ToEvent_fields ToEvent_Success ToEvent_OldData ToEvent_NewData marshal_field_def)

theorem C3_witness:
  "evOldData (ToEvent (\<lambda>v. if v = Some (0::nat) then Inl (Error ''unsupported type'') else Inr ''1'')
      (zero_context\<lparr>TraceID := Some 7, OldData := Some 0, NewData := Some 1\<rparr>)) = None
   \<and> evNewData (ToEvent (\<lambda>v. if v = Some (0::nat) then Inl (Error ''unsupported type'') else Inr ''1'')
      (zero_context\<lparr>TraceID := Some 7, OldData := Some 0, NewData := Some 1\<rparr>)) = Some ''1''
   \<and> evTraceID (ToEvent (\<lambda>v. if v = Some (0::nat) then Inl (Error ''unsupported type'') else Inr ''1'')
      (zero_context\<lparr>TraceID := Some 7, OldData := Some 0, NewData := Some 1\<rparr>)) = Some 7
   \<and> evOldData (ToEvent (\<lambda>v. if v = Some (0::nat) then Inl (Error ''unsupported type'') else Inr ''1'')
      (zero_context\<lparr>TraceID := Some 7, NewData := Some 0\<rparr>)) = None"
  using C3_ToEvent_total_best_effort
    [of "zero_context\<lparr>TraceID := Some 7, OldData := Some (0::nat), NewData := Some 1\<rparr>"
        "\<lambda>v. if v = Some (0::nat) then Inl (Error ''unsupported type'') else Inr ''1''"]
    C3_ToEvent_total_best_effort
    [of "zero_context\<lparr>TraceID := Some 7, NewData := Some (0::nat)\<rparr>"
        "\<lambda>v. if v = Some (0::nat) then Inl (Error ''unsupported type'') else Inr ''1''"]
  by (simp add: zero_context_def)

text \<open>
  C4. For an accumulator on which the user, the action, the resource kind, the metadata
  (nil, or the empty map the adapter creates), the old data and the new data were never
  set, the serialized event has none of the keys \<open>userId\<close>, \<open>action\<close>, \<open>resource\<close>,
  \<open>metadata\<close>, \<open>oldData\<close>, \<open>newData\<close>.
\<close>

theorem C4_unset_optional_keys_omitted:
  assumes "UserID ac = None" and "Action ac = None" and "Resource ac = None"
    and "Metadata ac = None \<or> Metadata ac = Some []"
    and "OldData ac = None" and "NewData ac = None"
  shows "''userId'' \<notin> set (json_keys (ToEvent marshal ac))
    \<and> ''action'' \<notin> set (json_keys (ToEvent marshal ac))
    \<and> ''resource'' \<notin> set (json_keys (ToEvent marshal ac))
    \<and> ''metadata'' \<notin> set (json_keys (ToEvent marshal ac))
    \<and> ''oldData'' \<notin> set (json_keys (ToEvent marshal ac))
    \<and> ''newData'' \<notin> set (json_keys (ToEvent marshal ac))"
  using assms
  by (auto simp add: key_userId key_action key_resource key_metadata key_oldData key_newData
      ToEvent_fields ToEvent_OldData ToEvent_NewData marshal_field_def)

theorem C4_witness:
  "UserID (zero_context\<lparr>TraceID := Some (1::nat), Metadata := Some [], ResponseCode := 200\<rparr>) = None
   \<and> ''userId'' \<notin> set (json_keys (ToEvent (\<lambda>v. Inr ''null'')
        (zero_context\<lparr>TraceID := Some (1::nat), Metadata := Some [], ResponseCode := 200\<rparr>)))
   \<and> ''metadata'' \<notin> set (json_keys (ToEvent (\<lambda>v. Inr ''null'')
        (zero_context\<lparr>TraceID := Some (1::nat), Metadata := Some [], ResponseCode := 200\<rparr>)))
   \<and> ''newData'' \<notin> set (json_keys (ToEvent (\<lambda>v. Inr ''null'')
        (zero_context\<lparr>TraceID := Some (1::nat), Metadata := Some [], ResponseCode := 200\<rparr>)))"
  using C4_unset_optional_keys_omitted
    [of "zero_context\<lparr>TraceID := Some (1::nat), Metadata := Some [], ResponseCode := 200\<rparr>"
        "\<lambda>v. Inr ''null''"]
  by (simp add: zero_context_def)

section \<open>Decorators on the shared store\<close>

lemma SetContext_unattached: "GetAuditContext ctx = None \<Longrightarrow> SetContext ctx opts s = Returned s"
  by (simp add: SetContext_def)

lemma SetContext_bulk:
  "GetAuditContext ctx = Some a \<Longrightarrow>
   SetContext ctx [WithBulkMetadata metadata] s = Returned (s(a := SetBulkMetadata metadata (s a)))"
  by (simp add: SetContext_def WithBulkMetadata_def)

lemma SetBulkMetadata_merge:
  assumes "distinct (map fst (map_entries metadata))"
  shows "\<exists>m'. Metadata (SetBulkMetadata metadata ac) = Some m' \<and>
           map_of m' = map_of (map_entries (Metadata ac)) ++ map_of (map_entries metadata)"
  using fold_update_map_of [OF assms]
  by (simp add: SetBulkMetadata_def make_if_nil_def Let_def map_entries_def)

text \<open>
  C6. \<open>AuditablePage\<close> marshals the page value and unmarshals the bytes into a map. If
  the marshal step fails, or the unmarshal step fails, the store is returned unchanged and
  the call returns normally. If both succeed and an accumulator is attached, the call
  returns, only that accumulator changes, only its \<open>Metadata\<close> field changes, and the
  new map is the old one overridden by the entries of the unmarshalled map.
\<close>

theorem C6_page_roundtrip_or_skip:
  "(\<forall>err. marshal pageData = Inl err \<longrightarrow>
       AuditablePage marshal unmarshal ctx pageData s = Returned s)
   \<and> (\<forall>bs err. marshal pageData = Inr bs \<longrightarrow> unmarshal bs = Inl err \<longrightarrow>
       AuditablePage marshal unmarshal ctx pageData s = Returned s)
   \<and> (\<forall>bs metadata a. marshal pageData = Inr bs \<longrightarrow> unmarshal bs = Inr metadata \<longrightarrow>
       GetAuditContext ctx = Some a \<longrightarrow> distinct (map fst (map_entries metadata)) \<longrightarrow>
       (\<exists>s' m'. AuditablePage marshal unmarshal ctx pageData s = Returned s'
          \<and> (\<forall>b. b \<noteq> a \<longrightarrow> s' b = s b)
          \<and> (s' a)\<lparr>Metadata := Metadata (s a)\<rparr> = s a
          \<and> Metadata (s' a) = Some m'
          \<and> map_of m' = map_of (map_entries (Metadata (s a))) ++ map_of (map_entries metadata)))"
proof (intro conjI allI impI)
  fix err assume "marshal pageData = Inl err"
  then show "AuditablePage marshal unmarshal ctx pageData s = Returned s"
    by (simp add: AuditablePage_def)
next
  fix bs err assume "marshal pageData = Inr bs" and "unmarshal bs = Inl err"
  then show "AuditablePage marshal unmarshal ctx pageData s = Returned s"
    by (simp add: AuditablePage_def)
next
  fix bs metadata a
  assume m: "marshal pageData = Inr bs" and u: "unmarshal bs = Inr metadata"
    and g: "GetAuditContext ctx = Some a" and d: "distinct (map fst (map_entries metadata))"
  from SetBulkMetadata_merge [OF d, of "s a"] obtain m' where
    m': "Metadata (SetBulkMetadata metadata (s a)) = Some m'"
      "map_of m' = map_of (map_entries (Metadata (s a))) ++ map_of (map_entries metadata)"
    by blast
  have run: "AuditablePage marshal unmarshal ctx pageData s =
      Returned (s(a := SetBulkMetadata metadata (s a)))"
    using m u by (simp add: AuditablePage_def SetContext_bulk [OF g])
  show "\<exists>s' m'. AuditablePage marshal unmarshal ctx pageData s = Returned s'
          \<and> (\<forall>b. b \<noteq> a \<longrightarrow> s' b = s b)
          \<and> (s' a)\<lparr>Metadata := Metadata (s a)\<rparr> = s a
          \<and> Metadata (s' a) = Some m'
          \<and> map_of m' = map_of (map_entries (Metadata (s a))) ++ map_of (map_entries metadata)"
    using run m' by (simp add: setters_frame)
qed

theorem C6_witness:
  "AuditablePage (\<lambda>v. if v = Some (0::nat) then Inl (Error ''unsupported type'') else Inr ''[1]'')
      (\<lambda>bs. if bs = ''[1]'' then Inl (Error ''cannot unmarshal array'') else Inr (Some [(''page'', Some 2)]))
      \<lparr>audit_value = AuditPtr (Some 0), other_values = 0\<rparr> (Some 0)
      (\<lambda>a. zero_context\<lparr>Metadata := Some [(''k'', Some 9)]\<rparr>)
     = Returned (\<lambda>a. zero_context\<lparr>Metadata := Some [(''k'', Some 9)]\<rparr>)
   \<and> AuditablePage (\<lambda>v. if v = Some (0::nat) then Inl (Error ''unsupported type'') else Inr ''[1]'')
      (\<lambda>bs. if bs = ''[1]'' then Inl (Error ''cannot unmarshal array'') else Inr (Some [(''page'', Some 2)]))
      \<lparr>audit_value = AuditPtr (Some 0), other_values = 0\<rparr> (Some 1)
      (\<lambda>a. zero_context\<lparr>Metadata := Some [(''k'', Some 9)]\<rparr>)
     = Returned (\<lambda>a. zero_context\<lparr>Metadata := Some [(''k'', Some 9)]\<rparr>)
   \<and> (\<exists>s' m'. AuditablePage (\<lambda>v. Inr ''{p:2}'')
      (\<lambda>bs. if bs = ''[1]'' then Inl (Error ''cannot unmarshal array'') else Inr (Some [(''page'', Some (2::nat))]))
      \<lparr>audit_value = AuditPtr (Some 0), other_values = 0\<rparr> (Some 1)
      (\<lambda>a. zero_context\<lparr>Metadata := Some [(''k'', Some 9)]\<rparr>) = Returned s'
      \<and> Metadata (s' 0) = Some m' \<and> map_of m' ''page'' = Some (Some 2) \<and> map_of m' ''k'' = Some (Some 9))"
proof -
  let ?m = "\<lambda>v. if v = Some (0::nat) then Inl (Error ''unsupported type'') else Inr ''[1]''"
  let ?u = "\<lambda>bs. if bs = ''[1]'' then Inl (Error ''cannot unmarshal array'')
                 else Inr (Some [(''page'', Some (2::nat))])"
  let ?ctx = "\<lparr>audit_value = AuditPtr (Some 0), other_values = 0\<rparr>"
  let ?s = "\<lambda>a::nat. zero_context\<lparr>Metadata := Some [(''k'', Some (9::nat))]\<rparr>"
  have 1: "AuditablePage ?m ?u ?ctx (Some 0) ?s = Returned ?s"
    using C6_page_roundtrip_or_skip [of ?m "Some 0" ?u ?ctx ?s] by simp
  have 2: "AuditablePage ?m ?u ?ctx (Some 1) ?s = Returned ?s"
    using C6_page_roundtrip_or_skip [of ?m "Some 1" ?u ?ctx ?s] by simp
  have 3: "\<exists>s' m'. AuditablePage (\<lambda>v. Inr ''{p:2}'') ?u ?ctx (Some 1) ?s = Returned s'
      \<and> Metadata (s' 0) = Some m' \<and> map_of m' ''page'' = Some (Some 2) \<and> map_of m' ''k'' = Some (Some 9)"
    using C6_page_roundtrip_or_skip [of "\<lambda>v. Inr ''{p:2}''" "Some 1" ?u ?ctx ?s]
    by (auto simp add: GetAuditContext_def map_entries_def)
  from 1 2 3 show ?thesis by blast
qed

text \<open>
  C7. For a context with no attached accumulator (no value under the key, a value of
  another type, or a nil accumulator pointer), \<open>SetContext\<close> with any options and every
  decorator return normally and leave the store unchanged.
\<close>

theorem C7_no_accumulator_noop:
  assumes "GetAuditContext ctx = None"
  shows "SetContext ctx opts s = Returned s
    \<and> AuditableCreate ctx resourceID newData s = Returned s
    \<and> AuditableUpdate ctx resourceID oldData newData s = Returned s
    \<and> AuditableDelete ctx resourceID oldData s = Returned s
    \<and> AuditableGet ctx resourceID s = Returned s
    \<and> AuditableList ctx metadata s = Returned s
    \<and> AuditablePage marshal unmarshal ctx pageData s = Returned s
    \<and> AuditableAction ctx resourceID metadata s = Returned s"
  by (simp add: SetContext_unattached [OF assms] AuditableCreate_def AuditableUpdate_def
      AuditableDelete_def AuditableGet_def AuditableList_def AuditablePage_def
      AuditableAction_def Let_def split: sum.splits)

theorem C7_witness:
  "GetAuditContext \<lparr>audit_value = NoValue, other_values = 0\<rparr> = None
   \<and> GetAuditContext \<lparr>audit_value = AuditPtr None, other_values = 0\<rparr> = None
   \<and> GetAuditContext \<lparr>audit_value = OtherValue, other_values = 0\<rparr> = None
   \<and> SetContext \<lparr>audit_value = NoValue, other_values = 0\<rparr> [\<lambda>ac. Panicked]
        (\<lambda>a. zero_context :: nat AuditableContext) = Returned (\<lambda>a. zero_context)
   \<and> AuditableUpdate \<lparr>audit_value = AuditPtr None, other_values = 0\<rparr> (Some 7) (Some 1) (Some 2)
        (\<lambda>a. zero_context :: nat AuditableContext) = Returned (\<lambda>a. zero_context)
   \<and> AuditableAction \<lparr>audit_value = OtherValue, other_values = 0\<rparr> (Some 7) (Some [(''k'', Some 1)])
        (\<lambda>a. zero_context :: nat AuditableContext) = Returned (\<lambda>a. zero_context)"
  using C7_no_accumulator_noop [where ctx = "\<lparr>audit_value = NoValue, other_values = 0\<rparr>"
      and opts = "[\<lambda>ac. Panicked]" and s = "\<lambda>a. zero_context :: nat AuditableContext"]
    C7_no_accumulator_noop [where ctx = "\<lparr>audit_value = AuditPtr None, other_values = 0\<rparr>"
      and s = "\<lambda>a. zero_context :: nat AuditableContext" and resourceID = "Some 7"
      and oldData = "Some 1" and newData = "Some 2"]
    C7_no_accumulator_noop [where ctx = "\<lparr>audit_value = OtherValue, other_values = 0\<rparr>"
      and s = "\<lambda>a. zero_context :: nat AuditableContext" and resourceID = "Some 7"
      and metadata = "Some [(''k'', Some 1)]"]
  by (simp add: GetAuditContext_def)

text \<open>
  C8. Every sequence of calls of the setters, \<open>ToEvent\<close> and the decorators returns
  normally and leaves the \<open>TraceID\<close> of every accumulator of the store as it was; and
  each setter changes only its own target field: restoring that field gives back the
  accumulator the setter was called on.
\<close>

theorem C8_TraceID_never_changes:
  "(\<exists>s'. run_calls marshal unmarshal calls s = Returned s' \<and> (\<forall>a. TraceID (s' a) = TraceID (s a)))
   \<and> (SetUserID userID ac)\<lparr>UserID := UserID ac\<rparr> = ac
   \<and> (SetResourceID resourceID ac)\<lparr>ResourceID := ResourceID ac\<rparr> = ac
   \<and> (SetOldData dat ac)\<lparr>OldData := OldData ac\<rparr> = ac
   \<and> (SetNewData dat ac)\<lparr>NewData := NewData ac\<rparr> = ac
   \<and> (SetMetadata key val ac)\<lparr>Metadata := Metadata ac\<rparr> = ac
   \<and> (SetBulkMetadata metadata ac)\<lparr>Metadata := Metadata ac\<rparr> = ac"
  using run_calls_TraceID [of marshal unmarshal calls s] by (simp add: setters_frame)

theorem C8_witness:
  "\<exists>s'. run_calls (\<lambda>v. Inr ''null'') (\<lambda>bs. Inr None)
      [Call_SetUserID 0 (Some 5),
       Call_AuditableCreate \<lparr>audit_value = AuditPtr (Some 0), other_values = 0\<rparr> (Some 1) (Some 2),
       Call_SetBulkMetadata 0 (Some [(''a'', Some 1)]),
       Call_ToEvent 0]
      (\<lambda>a. zero_context\<lparr>TraceID := Some (42::nat)\<rparr>) = Returned s'
     \<and> TraceID (s' 0) = Some 42"
proof -
  let ?calls = "[Call_SetUserID 0 (Some 5),
       Call_AuditableCreate \<lparr>audit_value = AuditPtr (Some 0), other_values = 0\<rparr> (Some 1) (Some 2),
       Call_SetBulkMetadata 0 (Some [(''a'', Some 1)]),
       Call_ToEvent 0]"
  let ?s = "\<lambda>a::nat. zero_context\<lparr>TraceID := Some (42::nat)\<rparr>"
  from C8_TraceID_never_changes [of "\<lambda>v. Inr ''null''" "\<lambda>bs. Inr None" ?calls ?s]
  obtain s' where r: "run_calls (\<lambda>v. Inr ''null'') (\<lambda>bs. Inr None) ?calls ?s = Returned s'"
    and t: "\<forall>a. TraceID (s' a) = TraceID (?s a)"
    by blast
  from t have "TraceID (s' 0) = Some 42" by simp
  with r show ?thesis by blast
qed

section \<open>Two merges in either order\<close>

text \<open>
  Each \<open>SetBulkMetadata\<close> call holds the accumulator's lock for its whole body, so two
  calls run one after the other in some order. In both orders the map holds both keys.
\<close>

lemma SetBulkMetadata_either_order:
  "\<exists>m. Metadata (SetBulkMetadata (Some [(''b'', vb)]) (SetBulkMetadata (Some [(''a'', va)]) ac)) = Some m
        \<and> map_of m ''a'' = Some va \<and> map_of m ''b'' = Some vb"
  "\<exists>m. Metadata (SetBulkMetadata (Some [(''a'', va)]) (SetBulkMetadata (Some [(''b'', vb)]) ac)) = Some m
        \<and> map_of m ''a'' = Some va \<and> map_of m ''b'' = Some vb"
  by (simp_all add: SetBulkMetadata_def make_if_nil_def Let_def map_entries_def update_conv')

section \<open>The root middleware\<close>

lemma Root_leave_trigger:
  assumes "Resource (heap w a) \<noteq> None" and "Action (heap w a) \<noteq> None"
    and "Auditor (cfg em) = Some auditor"
  shows "Root_leave marshal em ctx a err w =
     Returned (err,
       w\<lparr>heap := (heap w)(a := (heap w a)\<lparr>EndTime := now w,
              ResponseCode := (case response w of None \<Rightarrow> ResponseCode (heap w a) | Some status \<Rightarrow> status)\<rparr>),
         goroutines := goroutines w @
           [(auditor, ctx, ToEvent marshal ((heap w a)\<lparr>EndTime := now w,
              ResponseCode := (case response w of None \<Rightarrow> ResponseCode (heap w a) | Some status \<Rightarrow> status)\<rparr>))]\<rparr>)"
  using assms by (cases "response w") (simp_all add: Root_leave_def Let_def)

lemma Root_leave_no_trigger:
  assumes "Resource (heap w a) = None \<or> Action (heap w a) = None"
  shows "Root_leave marshal em ctx a err w =
     Returned (err,
       w\<lparr>heap := (heap w)(a := (heap w a)\<lparr>EndTime := now w,
              ResponseCode := (case response w of None \<Rightarrow> ResponseCode (heap w a) | Some status \<Rightarrow> status)\<rparr>)\<rparr>)"
  using assms by (cases "response w") (auto simp add: Root_leave_def Let_def)

text \<open>
  C5. For a request that is not skipped, once the accumulator is attached and the rest of
  the chain has returned, \<open>Root\<close> writes the clock's reading into \<open>EndTime\<close> and then
  the status of the response, when there is one, into \<open>ResponseCode\<close>. If both
  \<open>Resource\<close> and \<open>Action\<close> are set, it starts exactly one delivery to the configured
  auditor, of the event converted from the stamped accumulator. If either is nil, it
  starts none, with or without an auditor. In both cases it returns the error of the
  chain and nothing else.
\<close>

theorem C5_root_stamps_then_dispatches:
  assumes "\<not> (case Skipper (cfg em) of None \<Rightarrow> False | Some skipper \<Rightarrow> skipper (request_Context c))"
    and "Root_enter em c w = Returned (c1, a, w1)"
    and "next c1 w1 = Returned (err, w2)"
  shows "let stamped = (heap w2 a)\<lparr>EndTime := now w2,
               ResponseCode := (case response w2 of None \<Rightarrow> ResponseCode (heap w2 a)
                                | Some status \<Rightarrow> status)\<rparr>
         in (\<forall>auditor. Resource (heap w2 a) \<noteq> None \<and> Action (heap w2 a) \<noteq> None \<longrightarrow>
               Auditor (cfg em) = Some auditor \<longrightarrow>
               EchoMw_Root marshal em next c w =
                 Returned (err, w2\<lparr>heap := (heap w2)(a := stamped),
                    goroutines := goroutines w2 @
                      [(auditor, request_Context c, ToEvent marshal stamped)]\<rparr>))
          \<and> (Resource (heap w2 a) = None \<or> Action (heap w2 a) = None \<longrightarrow>
               EchoMw_Root marshal em next c w =
                 Returned (err, w2\<lparr>heap := (heap w2)(a := stamped)\<rparr>))"
proof -
  have run: "EchoMw_Root marshal em next c w = Root_leave marshal em (request_Context c) a err w2"
    using assms by (simp add: EchoMw_Root_def Let_def)
  show ?thesis
    unfolding run Let_def by (auto simp add: Root_leave_trigger Root_leave_no_trigger)
qed

theorem C5_witness:
  "(\<exists>w3. EchoMw_Root (\<lambda>v. Inr ''null'')
        \<lparr>cfg = \<lparr>Auditor = Some (0::nat), NewTraceID = Some (\<lambda>u. Some (7::nat)),
                 UserFromContext = None, Skipper = Some (\<lambda>ctx. False)\<rparr>\<rparr>
        (EchoMw_For
           \<lparr>cfg = \<lparr>Auditor = Some (0::nat), NewTraceID = Some (\<lambda>u. Some (7::nat)),
                    UserFromContext = None, Skipper = Some (\<lambda>ctx. False)\<rparr>\<rparr>
           ''USER'' ''CREATE'' (\<lambda>c w. Returned (None, w\<lparr>response := Some 201, now := 105\<rparr>)))
        \<lparr>request_Context = \<lparr>audit_value = NoValue, other_values = 0\<rparr>, echo_value = NoValue,
          RealIP = ''10.0.0.1'', request_UserAgent = ''curl'', request_RequestURI = ''/users'',
          request_Method = ''POST''\<rparr>
        \<lparr>heap = \<lambda>a. zero_context, next_addr = 0, response = None, now = 100, goroutines = []\<rparr>
      = Returned (None, w3)
      \<and> map (\<lambda>(auditor, ctx, event). (auditor, evAction event, evResponseCode event, evEndTime event))
            (goroutines w3) = [(0, Some ''CREATE'', 201, 105)])
   \<and> (\<exists>w3. EchoMw_Root (\<lambda>v. Inr ''null'')
        \<lparr>cfg = \<lparr>Auditor = None :: nat option, NewTraceID = Some (\<lambda>u. Some (7::nat)),
                 UserFromContext = None, Skipper = None\<rparr>\<rparr>
        (\<lambda>c w. Returned (Some (Error ''not found''), w\<lparr>response := Some 404, now := 105\<rparr>))
        \<lparr>request_Context = \<lparr>audit_value = NoValue, other_values = 0\<rparr>, echo_value = NoValue,
          RealIP = ''10.0.0.1'', request_UserAgent = ''curl'', request_RequestURI = ''/users'',
          request_Method = ''POST''\<rparr>
        \<lparr>heap = \<lambda>a. zero_context, next_addr = 0, response = None, now = 100, goroutines = []\<rparr>
      = Returned (Some (Error ''not found''), w3)
      \<and> goroutines w3 = [] \<and> ResponseCode (heap w3 0) = 404 \<and> EndTime (heap w3 0) = 105)"
proof -
  let ?m = "\<lambda>v::nat any. (Inr ''null'' :: error + bytes)"
  let ?em = "\<lparr>cfg = \<lparr>Auditor = Some (0::nat), NewTraceID = Some (\<lambda>u. Some (7::nat)),
                 UserFromContext = None, Skipper = Some (\<lambda>ctx. False)\<rparr>\<rparr>"
  let ?em' = "\<lparr>cfg = \<lparr>Auditor = None :: nat option, NewTraceID = Some (\<lambda>u. Some (7::nat)),
                 UserFromContext = None, Skipper = None\<rparr>\<rparr>"
  let ?h = "\<lambda>(c::echo_Context) (w::(nat, nat) world).
              Returned (None :: error option, w\<lparr>response := Some 201, now := 105\<rparr>)"
  let ?h' = "\<lambda>(c::echo_Context) (w::(nat, nat) world).
              Returned (Some (Error ''not found''), w\<lparr>response := Some 404, now := 105\<rparr>)"
  let ?c = "\<lparr>request_Context = \<lparr>audit_value = NoValue, other_values = 0\<rparr>, echo_value = NoValue,
          RealIP = ''10.0.0.1'', request_UserAgent = ''curl'', request_RequestURI = ''/users'',
          request_Method = ''POST''\<rparr>"
  let ?w = "\<lparr>heap = \<lambda>a. zero_context, next_addr = 0, response = None, now = 100,
             goroutines = []\<rparr> :: (nat, nat) world"
  let ?c1 = "SetEchoAuditContext ?c (Some 0)"
  let ?w1 = "?w\<lparr>heap := (heap ?w)(0 :=
                      zero_context\<lparr>TraceID := Some 7, Metadata := Some [],
                        IPAddress := RealIP ?c, UserAgent := request_UserAgent ?c,
                        RequestURI := request_RequestURI ?c, Method := request_Method ?c,
                        StartTime := now ?w\<rparr>),
                    next_addr := Suc 0\<rparr>"
  have skip: "\<not> (case Skipper (cfg ?em) of None \<Rightarrow> False
                 | Some skipper \<Rightarrow> skipper (request_Context ?c))"
    by simp
  have skip': "\<not> (case Skipper (cfg ?em') of None \<Rightarrow> False
                 | Some skipper \<Rightarrow> skipper (request_Context ?c))"
    by simp
  have enter: "Root_enter ?em ?c ?w = Returned (?c1, 0, ?w1)"
    by (simp add: Root_enter_def)
  have enter': "Root_enter ?em' ?c ?w = Returned (?c1, 0, ?w1)"
    by (simp add: Root_enter_def)
  obtain w2 where nxt: "EchoMw_For ?em ''USER'' ''CREATE'' ?h ?c1 ?w1 = Returned (None, w2)"
    and w2: "Resource (heap w2 0) = Some ''USER''" "Action (heap w2 0) = Some ''CREATE''"
      "response w2 = Some 201" "now w2 = 105" "goroutines w2 = []"
    by (simp add: EchoMw_For_def SetEchoAuditContext_def)
  obtain w2' where nxt': "?h' ?c1 ?w1 = Returned (Some (Error ''not found''), w2')"
    and w2': "Resource (heap w2' 0) = None" "response w2' = Some 404" "now w2' = 105"
      "goroutines w2' = []"
    by (simp add: zero_context_def)
  have 1: "\<exists>w3. EchoMw_Root ?m ?em (EchoMw_For ?em ''USER'' ''CREATE'' ?h) ?c ?w = Returned (None, w3)
      \<and> map (\<lambda>(auditor, ctx, event). (auditor, evAction event, evResponseCode event, evEndTime event))
            (goroutines w3) = [(0, Some ''CREATE'', 201, 105)]"
    using C5_root_stamps_then_dispatches
      [where em = ?em and c = ?c and w = ?w and ?c1.0 = ?c1 and a = 0 and ?w1.0 = ?w1
         and ?next = "EchoMw_For ?em ''USER'' ''CREATE'' ?h" and err = None and ?w2.0 = w2
         and marshal = ?m, OF skip enter nxt] w2
    by (simp add: Let_def ToEvent_fields)
  have 2: "\<exists>w3. EchoMw_Root ?m ?em' ?h' ?c ?w = Returned (Some (Error ''not found''), w3)
      \<and> goroutines w3 = [] \<and> ResponseCode (heap w3 0) = 404 \<and> EndTime (heap w3 0) = 105"
    using C5_root_stamps_then_dispatches
      [where em = ?em' and c = ?c and w = ?w and ?c1.0 = ?c1 and a = 0 and ?w1.0 = ?w1
         and ?next = ?h' and err = "Some (Error ''not found'')" and ?w2.0 = w2'
         and marshal = ?m, OF skip' enter' nxt'] w2'
    by (simp add: Let_def)
  from 1 2 show ?thesis by blast
qed

section \<open>One-time configuration\<close>

lemma Configure_initial:
  "Configure cfg1 initial_vars = \<lparr>once = True, mw = Some (NewEchoMiddleware cfg1)\<rparr>"
  by (simp add: Configure_def initial_vars_def)

lemma Configure_again: "once g \<Longrightarrow> Configure cfg2 g = g"
  by (simp add: Configure_def)

lemma fold_Configure_again: "once g \<Longrightarrow> fold Configure cfgs g = g"
  by (induction cfgs) (simp_all add: Configure_again)

text \<open>
  C10. After \<open>Configure cfg1\<close> on the initial package variables, any further
  \<open>Configure\<close> calls leave the variables as they are, and \<open>Root\<close> and \<open>For\<close> return
  the middleware built from \<open>cfg1\<close>. On the initial variables, before any \<open>Configure\<close>,
  \<open>Root\<close> and \<open>For\<close> panic.
\<close>

theorem C10_configure_first_write_wins:
  "fold Configure later (Configure cfg1 initial_vars) = Configure cfg1 initial_vars
   \<and> Root marshal (fold Configure later (Configure cfg1 initial_vars)) =
        Returned (EchoMw_Root marshal (NewEchoMiddleware cfg1))
   \<and> For resource (fold Configure later (Configure cfg1 initial_vars)) =
        Returned (EchoMw_For (NewEchoMiddleware cfg1) resource)
   \<and> Root marshal (initial_vars :: ('v, 'a) package_vars) = Panicked
   \<and> For resource (initial_vars :: ('v, 'a) package_vars) = Panicked"
proof -
  have "once (Configure cfg1 initial_vars)" by (simp add: Configure_initial)
  then have "fold Configure later (Configure cfg1 initial_vars) = Configure cfg1 initial_vars"
    by (rule fold_Configure_again)
  then show ?thesis
    by (simp add: Configure_initial Root_def For_def) (simp add: initial_vars_def)
qed

theorem C10_witness:
  "Root (\<lambda>v. Inr ''null'')
      (Configure \<lparr>Auditor = Some (2::nat), NewTraceID = None, UserFromContext = None, Skipper = None\<rparr>
        (Configure \<lparr>Auditor = Some (1::nat), NewTraceID = Some (\<lambda>u. Some (7::nat)),
                     UserFromContext = None, Skipper = None\<rparr> initial_vars))
     = Returned (EchoMw_Root (\<lambda>v. Inr ''null'')
         \<lparr>cfg = \<lparr>Auditor = Some (1::nat), NewTraceID = Some (\<lambda>u. Some (7::nat)),
                  UserFromContext = None, Skipper = None\<rparr>\<rparr>)
   \<and> Root (\<lambda>v. Inr ''null'') (initial_vars :: (nat, nat) package_vars) = Panicked"
  using C10_configure_first_write_wins
    [where later = "[\<lparr>Auditor = Some (2::nat), NewTraceID = None, UserFromContext = None,
                      Skipper = None\<rparr>]"
       and ?cfg1.0 = "\<lparr>Auditor = Some (1::nat), NewTraceID = Some (\<lambda>u. Some (7::nat)),
          UserFromContext = None, Skipper = None\<rparr>"
       and marshal = "\<lambda>v. Inr ''null''" and resource = "''USER''"]
  apply (simp only: fold.simps o_apply id_apply NewEchoMiddleware_def)
  apply blast
  done

end
